theory Spec2Isabelle
  imports Complex_Main
begin

section \<open>Python values\<close>

text \<open>
  The program is \<^verbatim>\<open>src/pubmed_search.py\<close>: class \<^verbatim>\<open>Tools\<close> with the public method
  \<^verbatim>\<open>search_pubmed\<close> and the helpers \<^verbatim>\<open>_fetch_pubmed_data\<close> and \<^verbatim>\<open>_format_results\<close>
  (here without the leading underscore, which an Isabelle name cannot start with).

  Both responses are whatever \<^verbatim>\<open>response.json()\<close> parses, so the values the code handles
  are the Python images of JSON values. A \<^verbatim>\<open>float\<close> is kept only as far as the code can
  observe it (whether it is zero); a \<^verbatim>\<open>str\<close> is a list of characters, one \<open>char\<close> standing
  for one code point; a \<^verbatim>\<open>dict\<close> is an association list in insertion order, read with
  \<open>map_of\<close> (a parsed object has distinct keys; no theorem below needs that).
\<close>

datatype py_float = Finite rat | NegZero | PosInf | NegInf | NaN

datatype json =
    JNull
  | JBool bool
  | JInt int
  | JFloat py_float
  | JStr string
  | JList "json list"
  | JDict "(string \<times> json) list"

type_synonym pydict = "(string \<times> json) list"

fun float_truthy :: "py_float \<Rightarrow> bool" where
  "float_truthy (Finite r) = (r \<noteq> 0)"
| "float_truthy NegZero = False"
| "float_truthy PosInf = True"
| "float_truthy NegInf = True"
| "float_truthy NaN = True"

text \<open>\<^verbatim>\<open>bool(v)\<close>, as \<^verbatim>\<open>if v\<close> and \<^verbatim>\<open>if not v\<close> test it.\<close>

fun py_truthy :: "json \<Rightarrow> bool" where
  "py_truthy JNull = False"
| "py_truthy (JBool b) = b"
| "py_truthy (JInt i) = (i \<noteq> 0)"
| "py_truthy (JFloat f) = float_truthy f"
| "py_truthy (JStr s) = (s \<noteq> [])"
| "py_truthy (JList xs) = (xs \<noteq> [])"
| "py_truthy (JDict d) = (d \<noteq> [])"

section \<open>Requests, responses and exceptions\<close>

datatype param = PStr string | PInt int

record request =
  req_url :: string
  req_params :: "(string \<times> param) list"

text \<open>
  What the code reads of a \<^verbatim>\<open>requests.Response\<close>: the status, the reason phrase (it goes
  into the message of \<^verbatim>\<open>HTTPError\<close>) and the body as \<^verbatim>\<open>json()\<close> parses it, \<open>None\<close> when
  the body is not JSON.
\<close>

record response =
  status_code :: nat
  reason :: string
  json_body :: "json option"

text \<open>
  A remote endpoint either gives no response (\<^verbatim>\<open>requests.get\<close> raises, with the message
  carried here) or some response. A network is any function from requests to outcomes.
\<close>

datatype http_outcome = TransportFailure string | Responded response

type_synonym network = "request \<Rightarrow> http_outcome"

text \<open>The operation a \<^verbatim>\<open>TypeError\<close> comes from, with the value it was applied to.\<close>

datatype py_op = Subscript | Iterate | Contains | JoinItem

datatype py_exception =
    RequestException string
  | HTTPError response
  | JSONDecodeError
  | KeyError string
  | TypeError py_op json
  | AttributeError json string

text \<open>
  Every exception the code can meet derives from \<^verbatim>\<open>Exception\<close>: the ones of
  \<^verbatim>\<open>requests\<close> through \<^verbatim>\<open>IOError\<close>, its \<^verbatim>\<open>JSONDecodeError\<close> through \<^verbatim>\<open>ValueError\<close>,
  \<^verbatim>\<open>KeyError\<close> through \<^verbatim>\<open>LookupError\<close>.
\<close>

fun is_Exception :: "py_exception \<Rightarrow> bool" where
  "is_Exception (RequestException m) = True"
| "is_Exception (HTTPError r) = True"
| "is_Exception JSONDecodeError = True"
| "is_Exception (KeyError k) = True"
| "is_Exception (TypeError opr v) = True"
| "is_Exception (AttributeError v a) = True"

section \<open>The operations of Python the code uses\<close>

text \<open>\<^verbatim>\<open>v[k]\<close> for a \<^verbatim>\<open>str\<close> key: only a \<^verbatim>\<open>dict\<close> can be indexed by a string.\<close>

fun py_getitem :: "json \<Rightarrow> string \<Rightarrow> py_exception + json" where
  "py_getitem (JDict d) k = (case map_of d k of None \<Rightarrow> Inl (KeyError k) | Some v \<Rightarrow> Inr v)"
| "py_getitem v k = Inl (TypeError Subscript v)"

text \<open>\<^verbatim>\<open>v.get(k, default)\<close>: a method of \<^verbatim>\<open>dict\<close> only.\<close>

fun py_get :: "json \<Rightarrow> string \<Rightarrow> json \<Rightarrow> py_exception + json" where
  "py_get (JDict d) k dflt = Inr (case map_of d k of None \<Rightarrow> dflt | Some v \<Rightarrow> v)"
| "py_get v k dflt = Inl (AttributeError v ''get'')"

fun is_substring :: "string \<Rightarrow> string \<Rightarrow> bool" where
  "is_substring xs [] = (xs = [])"
| "is_substring xs (y # ys) = (take (length xs) (y # ys) = xs \<or> is_substring xs ys)"

text \<open>
  \<^verbatim>\<open>k in v\<close> for a \<^verbatim>\<open>str\<close> \<open>k\<close>: a key of a dict, a substring of a string, an element
  of a list; the other values are not containers.
\<close>

fun py_contains :: "string \<Rightarrow> json \<Rightarrow> py_exception + bool" where
  "py_contains k (JDict d) = Inr (map_of d k \<noteq> None)"
| "py_contains k (JStr s) = Inr (is_substring k s)"
| "py_contains k (JList xs) = Inr (JStr k \<in> set xs)"
| "py_contains k v = Inl (TypeError Contains v)"

text \<open>
  What a \<^verbatim>\<open>for\<close> loop, a generator expression or \<^verbatim>\<open>str.join\<close> iterates: the elements
  of a list, the one-character strings of a string, the keys of a dict.
\<close>

fun py_iter :: "json \<Rightarrow> py_exception + json list" where
  "py_iter (JList xs) = Inr xs"
| "py_iter (JStr s) = Inr (map (\<lambda>c. JStr [c]) s)"
| "py_iter (JDict d) = Inr (map (\<lambda>kv. JStr (fst kv)) d)"
| "py_iter v = Inl (TypeError Iterate v)"

text \<open>\<^verbatim>\<open>str.join\<close> accepts only \<^verbatim>\<open>str\<close> items and raises on the first other one.\<close>

fun str_items :: "json list \<Rightarrow> py_exception + string list" where
  "str_items [] = Inr []"
| "str_items (JStr s # xs) = (case str_items xs of Inl e \<Rightarrow> Inl e | Inr ss \<Rightarrow> Inr (s # ss))"
| "str_items (x # xs) = Inl (TypeError JoinItem x)"

fun join :: "string \<Rightarrow> string list \<Rightarrow> string" where
  "join sep [] = []"
| "join sep [s] = s"
| "join sep (s # t # ss) = s @ sep @ join sep (t # ss)"

text \<open>\<^verbatim>\<open>str(n)\<close> for the non-negative integers the report prints.\<close>

fun str_nat :: "nat \<Rightarrow> string" where
  "str_nat n =
     (if n < 10 then [''0123456789'' ! n]
      else str_nat (n div 10) @ [''0123456789'' ! (n mod 10)])"

declare str_nat.simps [simp del]

text \<open>
  \<^verbatim>\<open>{v}\<close> in an f-string is \<^verbatim>\<open>str(v)\<close>: a string is itself; what the interpreter prints
  for any other value is the parameter \<open>val_str\<close>.
\<close>

definition format_value :: "(json \<Rightarrow> string) \<Rightarrow> json \<Rightarrow> string" where
  "format_value val_str v = (case v of JStr s \<Rightarrow> s | _ \<Rightarrow> val_str v)"

section \<open>The two requests\<close>

definition requests_get ::
  "network \<Rightarrow> request \<Rightarrow> request list \<Rightarrow> (py_exception + response) \<times> request list" where
  "requests_get net rq sent =
     (case net rq of
        TransportFailure m \<Rightarrow> (Inl (RequestException m), sent @ [rq])
      | Responded r \<Rightarrow> (Inr r, sent @ [rq]))"

text \<open>\<^verbatim>\<open>Response.raise_for_status\<close> of \<^verbatim>\<open>requests\<close>: statuses 400 to 599 raise.\<close>

definition raise_for_status :: "response \<Rightarrow> py_exception + unit" where
  "raise_for_status r =
     (if 400 \<le> status_code r \<and> status_code r < 600 then Inl (HTTPError r) else Inr ())"

definition response_json :: "response \<Rightarrow> py_exception + json" where
  "response_json r = (case json_body r of None \<Rightarrow> Inl JSONDecodeError | Some v \<Rightarrow> Inr v)"

text \<open>
  The three lines \<^verbatim>\<open>requests.get(...)\<close>, \<^verbatim>\<open>response.raise_for_status()\<close>,
  \<^verbatim>\<open>response.json()\<close>, which the code runs once for each endpoint. \<open>sent\<close> is the
  sequence of requests issued so far.
\<close>

definition get_json ::
  "network \<Rightarrow> request \<Rightarrow> request list \<Rightarrow> (py_exception + json) \<times> request list" where
  "get_json net rq sent =
     (case requests_get net rq sent of
        (Inl e, sent') \<Rightarrow> (Inl e, sent')
      | (Inr r, sent') \<Rightarrow>
          (case raise_for_status r of
             Inl e \<Rightarrow> (Inl e, sent')
           | Inr u \<Rightarrow> (response_json r, sent')))"

definition base_url :: string where
  "base_url = ''https://eutils.ncbi.nlm.nih.gov/entrez/eutils''"

definition search_request :: "string \<Rightarrow> int \<Rightarrow> request" where
  "search_request query max_results =
     \<lparr>req_url = base_url @ ''/esearch.fcgi'',
      req_params =
        [(''db'', PStr ''pubmed''), (''term'', PStr query),
         (''retmode'', PStr ''json''), (''retmax'', PInt max_results)]\<rparr>"

definition summary_request :: "string list \<Rightarrow> request" where
  "summary_request ids =
     \<lparr>req_url = base_url @ ''/esummary.fcgi'',
      req_params =
        [(''db'', PStr ''pubmed''), (''id'', PStr (join '','' ids)), (''retmode'', PStr ''json'')]\<rparr>"

section \<open>Field extraction\<close>

text \<open>
  The generator \<^verbatim>\<open>author["name"] for author in ... if "name" in author and author["name"]\<close>,
  run to its end (\<^verbatim>\<open>join\<close> consumes it before it looks at the items). The source reads
  \<^verbatim>\<open>author["name"]\<close> twice; both reads give the same value.
\<close>

fun author_names :: "json list \<Rightarrow> py_exception + json list" where
  "author_names [] = Inr []"
| "author_names (author # rest) =
     (case py_contains ''name'' author of
        Inl e \<Rightarrow> Inl e
      | Inr has_name \<Rightarrow>
          if has_name then
            (case py_getitem author ''name'' of
               Inl e \<Rightarrow> Inl e
             | Inr name \<Rightarrow>
                 if py_truthy name then
                   (case author_names rest of Inl e \<Rightarrow> Inl e | Inr names \<Rightarrow> Inr (name # names))
                 else author_names rest)
          else author_names rest)"

definition extract_authors :: "json \<Rightarrow> py_exception + string" where
  "extract_authors article =
     (case py_contains ''authors'' article of
        Inl e \<Rightarrow> Inl e
      | Inr has_authors \<Rightarrow>
          if has_authors then
            (case py_get article ''authors'' (JList []) of
               Inl e \<Rightarrow> Inl e
             | Inr v \<Rightarrow>
                 (case py_iter v of
                    Inl e \<Rightarrow> Inl e
                  | Inr authors \<Rightarrow>
                      (case author_names authors of
                         Inl e \<Rightarrow> Inl e
                       | Inr names \<Rightarrow>
                           (case str_items names of
                              Inl e \<Rightarrow> Inl e
                            | Inr ss \<Rightarrow> Inr (join '', '' ss)))))
          else Inr [])"

text \<open>
  \<^verbatim>\<open>next((id_obj["value"] for id_obj in ... if id_obj["idtype"] == "doi"), "")\<close>: the
  generator is advanced to its first item only, so nothing after the first match is read.
\<close>

fun first_doi :: "json list \<Rightarrow> py_exception + json" where
  "first_doi [] = Inr (JStr [])"
| "first_doi (id_obj # rest) =
     (case py_getitem id_obj ''idtype'' of
        Inl e \<Rightarrow> Inl e
      | Inr idtype \<Rightarrow>
          if idtype = JStr ''doi'' then py_getitem id_obj ''value'' else first_doi rest)"

definition extract_doi :: "json \<Rightarrow> py_exception + json" where
  "extract_doi article =
     (case py_get article ''articleids'' (JList []) of
        Inl e \<Rightarrow> Inl e
      | Inr v \<Rightarrow> (case py_iter v of Inl e \<Rightarrow> Inl e | Inr id_objs \<Rightarrow> first_doi id_objs))"

definition article_url :: "string \<Rightarrow> string" where
  "article_url article_id = ''https://pubmed.ncbi.nlm.nih.gov/'' @ article_id @ ''/''"

text \<open>
  The dict display of the loop body (lines 84 to 106), its values evaluated in the order
  they are written: title, authors, pubdate, journal, doi, url.
\<close>

definition article_record :: "string \<Rightarrow> json \<Rightarrow> py_exception + pydict" where
  "article_record article_id article =
     (case py_getitem article ''title'' of
        Inl e \<Rightarrow> Inl e
      | Inr title \<Rightarrow>
          (case extract_authors article of
             Inl e \<Rightarrow> Inl e
           | Inr authors \<Rightarrow>
               (case py_get article ''pubdate'' (JStr []) of
                  Inl e \<Rightarrow> Inl e
                | Inr pubdate \<Rightarrow>
                    (case py_get article ''fulljournalname'' (JStr []) of
                       Inl e \<Rightarrow> Inl e
                     | Inr journal \<Rightarrow>
                         (case extract_doi article of
                            Inl e \<Rightarrow> Inl e
                          | Inr doi \<Rightarrow>
                              Inr [(''title'', title), (''authors'', JStr authors),
                                   (''pubdate'', pubdate), (''journal'', journal),
                                   (''doi'', doi), (''url'', JStr (article_url article_id))])))))"

text \<open>
  The loop \<^verbatim>\<open>for article_id in article_ids\<close> with \<^verbatim>\<open>results.append\<close>. It runs after
  \<^verbatim>\<open>",".join(article_ids)\<close> has returned, so every item it iterates is a \<^verbatim>\<open>str\<close>.
\<close>

fun build_results :: "json \<Rightarrow> string list \<Rightarrow> pydict list \<Rightarrow> py_exception + pydict list" where
  "build_results summaries [] results = Inr results"
| "build_results summaries (article_id # rest) results =
     (case py_getitem summaries article_id of
        Inl e \<Rightarrow> Inl e
      | Inr article \<Rightarrow>
          (case article_record article_id article of
             Inl e \<Rightarrow> Inl e
           | Inr r \<Rightarrow> build_results summaries rest (results @ [r])))"

section \<open>Fetching\<close>

text \<open>Lines 56 to 68: the search request and \<^verbatim>\<open>search_data["esearchresult"]["idlist"]\<close>.\<close>

definition esearch_idlist ::
  "network \<Rightarrow> string \<Rightarrow> int \<Rightarrow> request list \<Rightarrow> (py_exception + json) \<times> request list" where
  "esearch_idlist net query max_results sent =
     (case get_json net (search_request query max_results) sent of
        (Inl e, sent') \<Rightarrow> (Inl e, sent')
      | (Inr search_data, sent') \<Rightarrow>
          (case py_getitem search_data ''esearchresult'' of
             Inl e \<Rightarrow> (Inl e, sent')
           | Inr esearchresult \<Rightarrow> (py_getitem esearchresult ''idlist'', sent')))"

text \<open>Lines 73 to 77: the summary request and \<^verbatim>\<open>response.json()["result"]\<close>.\<close>

definition esummary_result ::
  "network \<Rightarrow> string list \<Rightarrow> request list \<Rightarrow> (py_exception + json) \<times> request list" where
  "esummary_result net ids sent =
     (case get_json net (summary_request ids) sent of
        (Inl e, sent') \<Rightarrow> (Inl e, sent')
      | (Inr body, sent') \<Rightarrow> (py_getitem body ''result'', sent'))"

text \<open>
  \<^verbatim>\<open>_fetch_pubmed_data\<close>. \<^verbatim>\<open>",".join(article_ids)\<close> iterates \<open>article_ids\<close> and demands
  strings; the loop iterates the same value again.
\<close>

definition fetch_pubmed_data ::
  "network \<Rightarrow> string \<Rightarrow> int \<Rightarrow> request list \<Rightarrow> (py_exception + pydict list) \<times> request list" where
  "fetch_pubmed_data net query max_results sent =
     (case esearch_idlist net query max_results sent of
        (Inl e, sent1) \<Rightarrow> (Inl e, sent1)
      | (Inr article_ids, sent1) \<Rightarrow>
          if \<not> py_truthy article_ids then (Inr [], sent1)
          else
            (case py_iter article_ids of
               Inl e \<Rightarrow> (Inl e, sent1)
             | Inr items \<Rightarrow>
                 (case str_items items of
                    Inl e \<Rightarrow> (Inl e, sent1)
                  | Inr ids \<Rightarrow>
                      (case esummary_result net ids sent1 of
                         (Inl e, sent2) \<Rightarrow> (Inl e, sent2)
                       | (Inr summaries, sent2) \<Rightarrow> (build_results summaries ids [], sent2)))))"

section \<open>Formatting\<close>

definition nl :: string where
  "nl = [CHR 0x0A]"

text \<open>\<^verbatim>\<open>article.get(k)\<close> when it is truthy, as a list of at most one value.\<close>

definition truthy_field :: "pydict \<Rightarrow> string \<Rightarrow> json list" where
  "truthy_field article k =
     (case map_of article k of None \<Rightarrow> [] | Some v \<Rightarrow> if py_truthy v then [v] else [])"

definition get_or :: "pydict \<Rightarrow> string \<Rightarrow> json \<Rightarrow> json" where
  "get_or article k dflt = (case map_of article k of None \<Rightarrow> dflt | Some v \<Rightarrow> v)"

text \<open>What one pass of the loop of \<^verbatim>\<open>_format_results\<close> appends, for \<^verbatim>\<open>enumerate\<close>'s index \<open>i\<close>.\<close>

definition article_section :: "(json \<Rightarrow> string) \<Rightarrow> nat \<Rightarrow> pydict \<Rightarrow> py_exception + string" where
  "article_section val_str i article =
     (let heading =
            ''## '' @ str_nat (i + 1) @ ''. '' @
            format_value val_str (get_or article ''title'' (JStr ''Untitled'')) @ nl @ nl;
          authors =
            (case truthy_field article ''authors'' of
               [] \<Rightarrow> []
             | v # vs \<Rightarrow> ''**Authors:** '' @ format_value val_str v @ nl @ nl);
          journal_info = truthy_field article ''journal'' @ truthy_field article ''pubdate'';
          doi =
            (case truthy_field article ''doi'' of
               [] \<Rightarrow> []
             | v # vs \<Rightarrow> ''**DOI:** '' @ format_value val_str v @ nl @ nl);
          link =
            ''**PubMed Link:** [View Article]('' @
            format_value val_str (get_or article ''url'' (JStr [])) @ '')'' @ nl @ nl
      in if journal_info = [] then Inr (heading @ authors @ doi @ link @ ''---'' @ nl @ nl)
         else
           (case str_items journal_info of
              Inl e \<Rightarrow> Inl e
            | Inr ss \<Rightarrow>
                Inr (heading @ authors @ ''**Published in:** '' @ join '' - '' ss @ nl @ nl @
                     doi @ link @ ''---'' @ nl @ nl)))"

fun format_loop ::
  "(json \<Rightarrow> string) \<Rightarrow> nat \<Rightarrow> pydict list \<Rightarrow> string \<Rightarrow> py_exception + string" where
  "format_loop val_str i [] markdown = Inr markdown"
| "format_loop val_str i (article # rest) markdown =
     (case article_section val_str i article of
        Inl e \<Rightarrow> Inl e
      | Inr s \<Rightarrow> format_loop val_str (i + 1) rest (markdown @ s))"

definition report_header :: "string \<Rightarrow> nat \<Rightarrow> string" where
  "report_header query n =
     ''# PubMed Search Results'' @ nl @ nl @ ''**Query:** '' @ query @ nl @ nl @
     ''**Found:** '' @ str_nat n @ '' results'' @ nl @ nl"

definition format_results ::
  "(json \<Rightarrow> string) \<Rightarrow> string \<Rightarrow> pydict list \<Rightarrow> py_exception + string" where
  "format_results val_str query articles =
     format_loop val_str 0 articles (report_header query (length articles))"

section \<open>The entry point\<close>

text \<open>
  \<^verbatim>\<open>try: ... except Exception as e: return handler(e)\<close>: an exception that is an
  \<^verbatim>\<open>Exception\<close> becomes the handler's value, any other one propagates.
\<close>

definition except_Exception ::
  "py_exception + string \<Rightarrow> (py_exception \<Rightarrow> string) \<Rightarrow> py_exception + string" where
  "except_Exception body handler =
     (case body of
        Inl e \<Rightarrow> if is_Exception e then Inr (handler e) else Inl e
      | Inr s \<Rightarrow> Inr s)"

definition no_results_message :: "string \<Rightarrow> string" where
  "no_results_message query =
     ''No PubMed results found for query: '' @ [CHR 0x27] @ query @ [CHR 0x27] @ ''.''"

definition error_message :: "(py_exception \<Rightarrow> string) \<Rightarrow> py_exception \<Rightarrow> string" where
  "error_message exc_str e = ''Error in PubMed search: '' @ exc_str e"

text \<open>
  \<^verbatim>\<open>search_pubmed\<close>. \<open>exc_str\<close> is \<^verbatim>\<open>str(e)\<close>, the interpreter's message of an
  exception; the result is \<open>Inl\<close> when an exception leaves the function.
\<close>

definition search_pubmed ::
  "(py_exception \<Rightarrow> string) \<Rightarrow> (json \<Rightarrow> string) \<Rightarrow> network \<Rightarrow> string \<Rightarrow> int \<Rightarrow> request list
   \<Rightarrow> (py_exception + string) \<times> request list" where
  "search_pubmed exc_str val_str net query max_results sent =
     (case fetch_pubmed_data net query max_results sent of
        (fetched, sent') \<Rightarrow>
          (except_Exception
             (case fetched of
                Inl e \<Rightarrow> Inl e
              | Inr articles \<Rightarrow>
                  if articles = [] then Inr (no_results_message query)
                  else format_results val_str query articles)
             (error_message exc_str),
           sent'))"

section \<open>Sample runtimes and networks\<close>

text \<open>
  Concrete values for the parameters, used where a statement is evaluated: a rendering of
  \<^verbatim>\<open>str(e)\<close> (the message a transport failure carries, the quoted key of a
  \<^verbatim>\<open>KeyError\<close>, and the class name as a stand-in where the interpreter builds the message
  from more than is kept here) and of \<^verbatim>\<open>str(v)\<close>, a response with status 200, the two
  body shapes of the remote service, and a network that tells the two endpoints apart by
  their URL.
\<close>

fun sample_exc_str :: "py_exception \<Rightarrow> string" where
  "sample_exc_str (RequestException m) = m"
| "sample_exc_str (HTTPError r) = str_nat (status_code r) @ '' '' @ reason r"
| "sample_exc_str JSONDecodeError = ''JSONDecodeError''"
| "sample_exc_str (KeyError k) = [CHR 0x27] @ k @ [CHR 0x27]"
| "sample_exc_str (TypeError opr v) = ''TypeError''"
| "sample_exc_str (AttributeError v a) = ''AttributeError''"

fun sample_val_str :: "json \<Rightarrow> string" where
  "sample_val_str JNull = ''None''"
| "sample_val_str (JBool b) = (if b then ''True'' else ''False'')"
| "sample_val_str (JStr s) = s"
| "sample_val_str v = ''?''"

definition ok_json :: "json \<Rightarrow> http_outcome" where
  "ok_json v = Responded \<lparr>status_code = 200, reason = ''OK'', json_body = Some v\<rparr>"

definition idlist_body :: "json \<Rightarrow> json" where
  "idlist_body v = JDict [(''esearchresult'', JDict [(''idlist'', v)])]"

definition result_body :: "pydict \<Rightarrow> json" where
  "result_body summaries = JDict [(''result'', JDict summaries)]"

definition two_endpoints :: "http_outcome \<Rightarrow> http_outcome \<Rightarrow> network" where
  "two_endpoints esearch esummary rq =
     (if req_url rq = base_url @ ''/esearch.fcgi'' then esearch else esummary)"

section \<open>The specification's vocabulary\<close>

text \<open>
  The error taxonomy of the specification (its section 7): a transport failure or a
  non-success status is a \<open>RemoteError\<close>; an expected field that is absent or shaped
  unexpectedly in a response body is a \<open>MalformedResponseError\<close>.
\<close>

datatype spec_error = RemoteError | MalformedResponseError

fun spec_error_kind :: "py_exception \<Rightarrow> spec_error" where
  "spec_error_kind (RequestException m) = RemoteError"
| "spec_error_kind (HTTPError r) = RemoteError"
| "spec_error_kind JSONDecodeError = MalformedResponseError"
| "spec_error_kind (KeyError k) = MalformedResponseError"
| "spec_error_kind (TypeError opr v) = MalformedResponseError"
| "spec_error_kind (AttributeError v a) = MalformedResponseError"

definition starts_with :: "string \<Rightarrow> string \<Rightarrow> bool" where
  "starts_with p s = (take (length p) s = p)"

text \<open>
  The Record of the specification is a dict whose values are strings; a value of one of
  the four optional fields may also be \<^verbatim>\<open>None\<close>. An absent key, \<^verbatim>\<open>None\<close> and the empty
  string all count as an empty field.
\<close>

fun is_str :: "json \<Rightarrow> bool" where
  "is_str (JStr s) = True"
| "is_str v = False"

definition optional_fields :: "string list" where
  "optional_fields = [''authors'', ''journal'', ''pubdate'', ''doi'']"

definition str_valued :: "pydict \<Rightarrow> bool" where
  "str_valued article =
     list_all (\<lambda>kv. is_str (snd kv) \<or> (snd kv = JNull \<and> fst kv \<in> set optional_fields)) article"

definition str_field :: "pydict \<Rightarrow> string \<Rightarrow> string" where
  "str_field article k = (case map_of article k of Some (JStr s) \<Rightarrow> s | _ \<Rightarrow> [])"

text \<open>
  The layout of the specification (its section 4.3), written on its own: every line is
  followed by a blank line, and the ordinal and the count are given as strings.
\<close>

definition blank_line_after :: "string \<Rightarrow> string" where
  "blank_line_after line = line @ [CHR 0x0A, CHR 0x0A]"

definition spec_header :: "string \<Rightarrow> string \<Rightarrow> string" where
  "spec_header query count =
     blank_line_after ''# PubMed Search Results'' @
     blank_line_after (''**Query:** '' @ query) @
     blank_line_after (''**Found:** '' @ count @ '' results'')"

definition spec_section :: "string \<Rightarrow> pydict \<Rightarrow> string" where
  "spec_section ordinal article =
     (let authors = str_field article ''authors'';
          journal = str_field article ''journal'';
          pubdate = str_field article ''pubdate'';
          doi = str_field article ''doi''
      in blank_line_after
           (''## '' @ ordinal @ ''. '' @
            (case map_of article ''title'' of Some (JStr t) \<Rightarrow> t | _ \<Rightarrow> ''Untitled'')) @
         (if authors \<noteq> [] then blank_line_after (''**Authors:** '' @ authors) else []) @
         (if journal \<noteq> [] \<or> pubdate \<noteq> []
          then blank_line_after
                 (''**Published in:** '' @
                  (if journal \<noteq> [] \<and> pubdate \<noteq> [] then journal @ '' - '' @ pubdate
                   else journal @ pubdate))
          else []) @
         (if doi \<noteq> [] then blank_line_after (''**DOI:** '' @ doi) else []) @
         blank_line_after (''**PubMed Link:** [View Article]('' @ str_field article ''url'' @ '')'') @
         blank_line_after ''---'')"

definition spec_report :: "(nat \<Rightarrow> string) \<Rightarrow> string \<Rightarrow> pydict list \<Rightarrow> string" where
  "spec_report decimal query articles =
     spec_header query (decimal (length articles)) @
     concat (map (\<lambda>k. spec_section (decimal (k + 1)) (articles ! k)) [0..<length articles])"

text \<open>
  What it means for a string to be the decimal numeral of a number: digits only, no
  leading zero, and the value read back from the digits is the number. The value of a
  digit is its position in \<^verbatim>\<open>0123456789\<close>.
\<close>

definition digit_value :: "char \<Rightarrow> nat" where
  "digit_value c = length (takeWhile (\<lambda>d. d \<noteq> c) ''0123456789'')"

definition decimal_value :: "string \<Rightarrow> nat" where
  "decimal_value s = foldl (\<lambda>acc c. 10 * acc + digit_value c) 0 s"

definition is_decimal_of :: "string \<Rightarrow> nat \<Rightarrow> bool" where
  "is_decimal_of s n =
     (s \<noteq> [] \<and> list_all (\<lambda>c. c \<in> set ''0123456789'') s \<and>
      (hd s = CHR ''0'' \<longrightarrow> s = ''0'') \<and> decimal_value s = n)"

text \<open>
  An item of an \<^verbatim>\<open>articleids\<close> list whose type tag equals \<^verbatim>\<open>"doi"\<close>, and the value of
  an item.
\<close>

definition is_doi_entry :: "json \<Rightarrow> bool" where
  "is_doi_entry id_obj =
     (case id_obj of JDict d \<Rightarrow> map_of d ''idtype'' = Some (JStr ''doi'') | _ \<Rightarrow> False)"

definition entry_value :: "json \<Rightarrow> json option" where
  "entry_value id_obj = (case id_obj of JDict d \<Rightarrow> map_of d ''value'' | _ \<Rightarrow> None)"

section \<open>The scenario of the specification\<close>

text \<open>
  Section 8 of the specification: the query \<^verbatim>\<open>CRISPR\<close>, the identifiers 111 and 222, the
  two summary entries, and the records and the report the code makes of them.
\<close>

definition crispr_summaries :: pydict where
  "crispr_summaries =
     [(''111'', JDict
         [(''title'', JStr ''Gene Editing Advances''),
          (''authors'', JList [JDict [(''name'', JStr ''A. Smith'')]]),
          (''pubdate'', JStr ''2023''),
          (''fulljournalname'', JStr ''Nature''),
          (''articleids'', JList [JDict [(''idtype'', JStr ''doi''), (''value'', JStr ''10.1/x'')]])]),
      (''222'', JDict
         [(''title'', JStr ''CRISPR Review''),
          (''authors'', JList []),
          (''pubdate'', JStr []),
          (''fulljournalname'', JStr []),
          (''articleids'', JList [])])]"

definition crispr_net :: network where
  "crispr_net =
     two_endpoints (ok_json (idlist_body (JList [JStr ''111'', JStr ''222''])))
       (ok_json (result_body crispr_summaries))"

definition crispr_records :: "pydict list" where
  "crispr_records =
     [[(''title'', JStr ''Gene Editing Advances''), (''authors'', JStr ''A. Smith''),
       (''pubdate'', JStr ''2023''), (''journal'', JStr ''Nature''),
       (''doi'', JStr ''10.1/x''), (''url'', JStr ''https://pubmed.ncbi.nlm.nih.gov/111/'')],
      [(''title'', JStr ''CRISPR Review''), (''authors'', JStr []),
       (''pubdate'', JStr []), (''journal'', JStr []),
       (''doi'', JStr []), (''url'', JStr ''https://pubmed.ncbi.nlm.nih.gov/222/'')]]"

definition crispr_report :: string where
  "crispr_report =
     ''# PubMed Search Results'' @ [CHR 0x0A, CHR 0x0A] @
     ''**Query:** CRISPR'' @ [CHR 0x0A, CHR 0x0A] @
     ''**Found:** 2 results'' @ [CHR 0x0A, CHR 0x0A] @
     ''## 1. Gene Editing Advances'' @ [CHR 0x0A, CHR 0x0A] @
     ''**Authors:** A. Smith'' @ [CHR 0x0A, CHR 0x0A] @
     ''**Published in:** Nature - 2023'' @ [CHR 0x0A, CHR 0x0A] @
     ''**DOI:** 10.1/x'' @ [CHR 0x0A, CHR 0x0A] @
     ''**PubMed Link:** [View Article](https://pubmed.ncbi.nlm.nih.gov/111/)'' @ [CHR 0x0A, CHR 0x0A] @
     ''---'' @ [CHR 0x0A, CHR 0x0A] @
     ''## 2. CRISPR Review'' @ [CHR 0x0A, CHR 0x0A] @
     ''**PubMed Link:** [View Article](https://pubmed.ncbi.nlm.nih.gov/222/)'' @ [CHR 0x0A, CHR 0x0A] @
     ''---'' @ [CHR 0x0A, CHR 0x0A]"

section \<open>The requests that are issued\<close>

lemma is_Exception_all: "is_Exception e"
  by (cases e) simp_all

lemma get_json_sent: "snd (get_json net rq sent) = sent @ [rq]"
  by (simp add: get_json_def requests_get_def split: http_outcome.splits sum.splits)

lemma get_json_fst: "fst (get_json net rq sent) = fst (get_json net rq sent')"
  by (simp add: get_json_def requests_get_def split: http_outcome.splits sum.splits)

lemma get_json_pair: "get_json net rq sent = (fst (get_json net rq []), sent @ [rq])"
  using get_json_sent [of net rq sent] get_json_fst [of net rq sent "[]"]
  by (cases "get_json net rq sent") simp

lemma esearch_idlist_sent:
  "snd (esearch_idlist net query max_results sent) = sent @ [search_request query max_results]"
  by (subst esearch_idlist_def, subst get_json_pair) (simp split: sum.splits)

lemma esearch_idlist_fst:
  "fst (esearch_idlist net query max_results sent) = fst (esearch_idlist net query max_results sent')"
  by (subst (1 2) esearch_idlist_def, subst (1 2) get_json_pair) (simp split: sum.splits)

lemma esummary_result_sent:
  "snd (esummary_result net ids sent) = sent @ [summary_request ids]"
  by (subst esummary_result_def, subst get_json_pair) (simp split: sum.splits)

lemma esummary_result_fst:
  "fst (esummary_result net ids sent) = fst (esummary_result net ids sent')"
  by (subst (1 2) esummary_result_def, subst (1 2) get_json_pair) (simp split: sum.splits)

lemma esearch_idlist_pair:
  "esearch_idlist net query max_results sent =
     (fst (esearch_idlist net query max_results sent), sent @ [search_request query max_results])"
  using esearch_idlist_sent [of net query max_results sent]
  by (cases "esearch_idlist net query max_results sent") simp

lemma esummary_result_pair:
  "esummary_result net ids sent = (fst (esummary_result net ids sent), sent @ [summary_request ids])"
  using esummary_result_sent [of net ids sent]
  by (cases "esummary_result net ids sent") simp

lemma fetch_unfold:
  "fetch_pubmed_data net query max_results sent =
     (case fst (esearch_idlist net query max_results []) of
        Inl e \<Rightarrow> (Inl e, sent @ [search_request query max_results])
      | Inr article_ids \<Rightarrow>
          if \<not> py_truthy article_ids then (Inr [], sent @ [search_request query max_results])
          else
            (case py_iter article_ids of
               Inl e \<Rightarrow> (Inl e, sent @ [search_request query max_results])
             | Inr items \<Rightarrow>
                 (case str_items items of
                    Inl e \<Rightarrow> (Inl e, sent @ [search_request query max_results])
                  | Inr ids \<Rightarrow>
                      (case fst (esummary_result net ids []) of
                         Inl e \<Rightarrow> (Inl e, sent @ [search_request query max_results, summary_request ids])
                       | Inr summaries \<Rightarrow>
                           (build_results summaries ids [],
                            sent @ [search_request query max_results, summary_request ids])))))"
proof -
  define locate where "locate = fst (esearch_idlist net query max_results [])"
  define summarize where "summarize = (\<lambda>ids. fst (esummary_result net ids []))"
  have a: "esearch_idlist net query max_results sent =
      (locate, sent @ [search_request query max_results])"
    using esearch_idlist_pair [of net query max_results sent]
      esearch_idlist_fst [of net query max_results sent "[]"] by (simp add: locate_def)
  have b: "\<And>ids s. esummary_result net ids s = (summarize ids, s @ [summary_request ids])"
    unfolding summarize_def using esummary_result_pair esummary_result_fst by metis
  show ?thesis
    unfolding fetch_pubmed_data_def a locate_def [symmetric] summarize_def [symmetric]
    by (simp add: b split: sum.splits)
qed

lemma fetch_sent_prefix:
  "\<exists>rest. snd (fetch_pubmed_data net query max_results sent) =
     sent @ search_request query max_results # rest"
  by (simp add: fetch_unfold split: sum.splits)

lemma fetch_fst:
  "fst (fetch_pubmed_data net query max_results sent) = fst (fetch_pubmed_data net query max_results sent')"
  by (simp add: fetch_unfold split: sum.splits)

lemma search_pubmed_sent:
  "snd (search_pubmed exc_str val_str net query max_results sent) =
     snd (fetch_pubmed_data net query max_results sent)"
  by (simp add: search_pubmed_def split: prod.splits)

lemma search_pubmed_fst:
  "fst (search_pubmed exc_str val_str net query max_results sent) =
     (case fst (fetch_pubmed_data net query max_results sent) of
        Inl e \<Rightarrow> Inr (error_message exc_str e)
      | Inr articles \<Rightarrow>
          if articles = [] then Inr (no_results_message query)
          else (case format_results val_str query articles of
                  Inl e \<Rightarrow> Inr (error_message exc_str e)
                | Inr report \<Rightarrow> Inr report))"
  by (simp add: search_pubmed_def except_Exception_def is_Exception_all split: prod.splits sum.splits)

section \<open>The loop over the identifiers\<close>

lemma str_items_map_JStr: "str_items (map JStr ids) = Inr ids"
  by (induction ids) simp_all

lemma str_items_length: "str_items items = Inr ids \<Longrightarrow> length ids = length items"
proof (induction items arbitrary: ids rule: str_items.induct)
  case 1
  then show ?case by simp
next
  case (2 s xs)
  then show ?case by (auto split: sum.splits)
qed simp_all

lemma build_results_map:
  "\<forall>i \<in> set ids. \<exists>article. py_getitem summaries i = Inr article \<and>
       article_record i article = Inr (recs i) \<Longrightarrow>
   build_results summaries ids results = Inr (results @ map recs ids)"
proof (induction ids arbitrary: results)
  case Nil
  then show ?case by simp
next
  case (Cons i ids)
  from Cons.prems obtain article where
    a: "py_getitem summaries i = Inr article" "article_record i article = Inr (recs i)"
    by auto
  have "build_results summaries ids (results @ [recs i]) = Inr ((results @ [recs i]) @ map recs ids)"
    using Cons.prems by (intro Cons.IH) simp
  with a show ?case by simp
qed

lemma build_results_length:
  "build_results summaries ids results = Inr rs \<Longrightarrow> length rs = length results + length ids"
proof (induction ids arbitrary: results)
  case Nil
  then show ?case by simp
next
  case (Cons i ids)
  then show ?case by (fastforce split: sum.splits)
qed

lemma build_results_fails:
  "i \<in> set ids \<Longrightarrow>
   (\<exists>e. py_getitem summaries i = Inl e) \<or>
   (\<exists>article e. py_getitem summaries i = Inr article \<and> article_record i article = Inl e) \<Longrightarrow>
   \<exists>e. build_results summaries ids results = Inl e"
proof (induction ids arbitrary: results)
  case Nil
  then show ?case by simp
next
  case (Cons j ids)
  show ?case
  proof (cases "py_getitem summaries j")
    case (Inl e)
    then show ?thesis by simp
  next
    case (Inr article)
    note lookup = this
    show ?thesis
    proof (cases "article_record j article")
      case (Inl e)
      with lookup show ?thesis by simp
    next
      case (Inr r)
      with lookup Cons.prems have "i \<in> set ids" by auto
      then have "\<exists>e. build_results summaries ids (results @ [r]) = Inl e"
        using Cons.prems(2) by (rule Cons.IH)
      with lookup Inr show ?thesis by simp
    qed
  qed
qed

lemma fetch_with_ids:
  assumes "fst (esearch_idlist net query max_results sent) = Inr (JList (map JStr ids))"
    and "ids \<noteq> []"
  shows "fetch_pubmed_data net query max_results sent =
     (case fst (esummary_result net ids []) of
        Inl e \<Rightarrow> (Inl e, sent @ [search_request query max_results, summary_request ids])
      | Inr summaries \<Rightarrow>
          (build_results summaries ids [],
           sent @ [search_request query max_results, summary_request ids]))"
proof -
  have "fst (esearch_idlist net query max_results []) = Inr (JList (map JStr ids))"
    using assms(1) esearch_idlist_fst [of net query max_results sent "[]"] by simp
  then show ?thesis
    using assms(2) by (simp add: fetch_unfold str_items_map_JStr)
qed

lemma article_record_url:
  "article_record i article = Inr r \<Longrightarrow> map_of r ''url'' = Some (JStr (article_url i))"
  by (auto simp add: article_record_def split: sum.splits)

lemma article_record_doi_fails:
  "extract_doi article = Inl e \<Longrightarrow> \<exists>e'. article_record article_id article = Inl e'"
  by (simp add: article_record_def split: sum.splits)

section \<open>Every failure of the extraction is a malformed response\<close>

lemma py_getitem_malformed: "py_getitem v k = Inl e \<Longrightarrow> spec_error_kind e = MalformedResponseError"
  by (cases v) (auto split: option.splits)

lemma py_get_malformed: "py_get v k d = Inl e \<Longrightarrow> spec_error_kind e = MalformedResponseError"
  by (cases v) auto

lemma py_contains_malformed: "py_contains k v = Inl e \<Longrightarrow> spec_error_kind e = MalformedResponseError"
  by (cases v) auto

lemma py_iter_malformed: "py_iter v = Inl e \<Longrightarrow> spec_error_kind e = MalformedResponseError"
  by (cases v) auto

lemma str_items_malformed: "str_items xs = Inl e \<Longrightarrow> spec_error_kind e = MalformedResponseError"
  by (induction xs arbitrary: e rule: str_items.induct) (auto split: sum.splits)

lemma author_names_malformed:
  "author_names xs = Inl e \<Longrightarrow> spec_error_kind e = MalformedResponseError"
  by (induction xs arbitrary: e)
    (auto split: sum.splits if_splits dest: py_contains_malformed py_getitem_malformed)

lemma first_doi_malformed: "first_doi xs = Inl e \<Longrightarrow> spec_error_kind e = MalformedResponseError"
  by (induction xs arbitrary: e)
    (auto split: sum.splits if_splits dest: py_getitem_malformed)

lemma extract_authors_malformed:
  "extract_authors a = Inl e \<Longrightarrow> spec_error_kind e = MalformedResponseError"
  unfolding extract_authors_def
  by (auto split: sum.splits if_splits
      dest: py_contains_malformed py_get_malformed py_iter_malformed author_names_malformed
        str_items_malformed)

lemma extract_doi_malformed:
  "extract_doi a = Inl e \<Longrightarrow> spec_error_kind e = MalformedResponseError"
  unfolding extract_doi_def
  by (auto split: sum.splits dest: py_get_malformed py_iter_malformed first_doi_malformed)

lemma article_record_malformed:
  "article_record i a = Inl e \<Longrightarrow> spec_error_kind e = MalformedResponseError"
  unfolding article_record_def
  by (auto split: sum.splits
      dest: py_getitem_malformed py_get_malformed extract_authors_malformed extract_doi_malformed)

lemma build_results_malformed:
  "build_results summaries ids results = Inl e \<Longrightarrow> spec_error_kind e = MalformedResponseError"
  by (induction ids arbitrary: results)
    (auto split: sum.splits dest: py_getitem_malformed article_record_malformed)

section \<open>The first DOI entry\<close>

lemma first_doi_missing_idtype:
  assumes "\<forall>x \<in> set pre. \<exists>d. x = JDict d \<and> map_of d ''idtype'' \<noteq> Some (JStr ''doi'')"
    and "map_of id_obj ''idtype'' = None"
  shows "first_doi (pre @ JDict id_obj # post) = Inl (KeyError ''idtype'')"
  using assms(1)
proof (induction pre)
  case Nil
  with assms(2) show ?case by simp
next
  case (Cons x pre)
  then obtain d where d: "x = JDict d" "map_of d ''idtype'' \<noteq> Some (JStr ''doi'')" by auto
  from Cons have ih: "first_doi (pre @ JDict id_obj # post) = Inl (KeyError ''idtype'')" by simp
  show ?case
  proof (cases "map_of d ''idtype''")
    case None
    with d show ?thesis by simp
  next
    case (Some t)
    with d ih show ?thesis by simp
  qed
qed

lemma first_doi_scan:
  assumes "\<forall>x \<in> set (takeWhile (\<lambda>x. \<not> is_doi_entry x) id_objs).
             \<exists>d t. x = JDict d \<and> map_of d ''idtype'' = Some t"
  shows "first_doi id_objs =
           (case find is_doi_entry id_objs of
              None \<Rightarrow> Inr (JStr [])
            | Some x \<Rightarrow>
                (case entry_value x of Some v \<Rightarrow> Inr v | None \<Rightarrow> Inl (KeyError ''value'')))"
  using assms
proof (induction id_objs)
  case Nil
  then show ?case by simp
next
  case (Cons x xs)
  show ?case
  proof (cases "is_doi_entry x")
    case True
    then obtain d where "x = JDict d" "map_of d ''idtype'' = Some (JStr ''doi'')"
      by (cases x) (simp_all add: is_doi_entry_def)
    with True show ?thesis
      by (simp add: entry_value_def split: option.splits)
  next
    case False
    with Cons.prems obtain d t where d: "x = JDict d" "map_of d ''idtype'' = Some t" by auto
    with False have "t \<noteq> JStr ''doi''" by (simp add: is_doi_entry_def)
    moreover from False Cons.prems have
      "\<forall>y \<in> set (takeWhile (\<lambda>x. \<not> is_doi_entry x) xs).
         \<exists>d t. y = JDict d \<and> map_of d ''idtype'' = Some t"
      by simp
    then have "first_doi xs =
           (case find is_doi_entry xs of
              None \<Rightarrow> Inr (JStr [])
            | Some x \<Rightarrow>
                (case entry_value x of Some v \<Rightarrow> Inr v | None \<Rightarrow> Inl (KeyError ''value'')))"
      by (rule Cons.IH)
    ultimately show ?thesis using d False by simp
  qed
qed

lemma article_record_doi:
  "article_record article_id article = Inr r \<Longrightarrow>
   \<exists>d. extract_doi article = Inr d \<and> map_of r ''doi'' = Some d"
  by (auto simp add: article_record_def split: sum.splits)

section \<open>The layout of a section\<close>

lemma str_valued_lookup:
  assumes "str_valued a" and "map_of a k = Some v"
  shows "(\<exists>s. v = JStr s) \<or> (v = JNull \<and> k \<in> set optional_fields)"
proof -
  from assms(2) have "(k, v) \<in> set a" by (rule map_of_SomeD)
  with assms(1) have "is_str v \<or> (v = JNull \<and> k \<in> set optional_fields)"
    by (auto simp add: str_valued_def list_all_iff)
  then show ?thesis by (cases v) simp_all
qed

lemma truthy_field_str:
  assumes "str_valued a"
  shows "truthy_field a k = (if str_field a k = [] then [] else [JStr (str_field a k)])"
proof (cases "map_of a k")
  case None
  then show ?thesis by (simp add: truthy_field_def str_field_def)
next
  case (Some v)
  with assms have "(\<exists>s. v = JStr s) \<or> v = JNull" using str_valued_lookup by blast
  with Some show ?thesis by (auto simp add: truthy_field_def str_field_def)
qed

lemma get_or_str:
  assumes "str_valued a" and "k \<notin> set optional_fields"
  shows "format_value val_str (get_or a k (JStr d)) =
           (case map_of a k of Some (JStr t) \<Rightarrow> t | _ \<Rightarrow> d)"
proof (cases "map_of a k")
  case None
  then show ?thesis by (simp add: get_or_def format_value_def)
next
  case (Some v)
  with assms obtain s where "v = JStr s" using str_valued_lookup by blast
  with Some show ?thesis by (simp add: get_or_def format_value_def)
qed

lemma digit_cases:
  assumes "k < (10::nat)"
  shows "k = 0 \<or> k = 1 \<or> k = 2 \<or> k = 3 \<or> k = 4 \<or> k = 5 \<or> k = 6 \<or> k = 7 \<or> k = 8 \<or> k = 9"
  using assms by arith

lemma digit_value_nth: "k < 10 \<Longrightarrow> digit_value (''0123456789'' ! k) = k"
  using digit_cases [of k] by (auto simp add: digit_value_def)

lemma digit_nth_in: "k < 10 \<Longrightarrow> ''0123456789'' ! k \<in> set ''0123456789''"
  by (rule nth_mem) simp

lemma digit_nth_zero: "k < 10 \<Longrightarrow> (''0123456789'' ! k = CHR ''0'') = (k = 0)"
  using digit_cases [of k] by auto

lemma decimal_value_snoc:
  "decimal_value (s @ [c]) = 10 * decimal_value s + digit_value c"
  by (simp add: decimal_value_def)

lemma str_nat_is_decimal: "is_decimal_of (str_nat n) n"
proof (induction n rule: str_nat.induct)
  case (1 n)
  show ?case
  proof (cases "n < 10")
    case True
    then have "str_nat n = [''0123456789'' ! n]" by (simp add: str_nat.simps)
    with True show ?thesis
      using digit_value_nth [of n] digit_nth_in [of n] digit_nth_zero [of n]
      by (auto simp add: is_decimal_of_def decimal_value_def)
  next
    case False
    then have eq: "str_nat n = str_nat (n div 10) @ [''0123456789'' ! (n mod 10)]"
      by (subst str_nat.simps) simp
    from False have ih: "is_decimal_of (str_nat (n div 10)) (n div 10)" by (rule "1.IH")
    have m: "n mod 10 < 10" by simp
    from False have pos: "n div 10 \<noteq> 0" by simp
    from ih pos have nz: "hd (str_nat (n div 10)) \<noteq> CHR ''0''"
      by (auto simp add: is_decimal_of_def decimal_value_def digit_value_def)
    from ih have ne: "str_nat (n div 10) \<noteq> []" by (simp add: is_decimal_of_def)
    show ?thesis
      unfolding eq is_decimal_of_def
      using ih nz ne digit_value_nth [OF m] digit_nth_in [OF m]
      by (simp add: is_decimal_of_def decimal_value_snoc)
  qed
qed

lemma report_header_spec: "report_header query n = spec_header query (str_nat n)"
  by (simp add: report_header_def spec_header_def blank_line_after_def nl_def)

lemma article_section_spec:
  assumes "str_valued a"
  shows "article_section val_str i a = Inr (spec_section (str_nat (i + 1)) a)"
proof -
  have url: "(case map_of a ''url'' of Some (JStr t) \<Rightarrow> t | _ \<Rightarrow> []) = str_field a ''url''"
    by (simp add: str_field_def)
  have title: "''title'' \<notin> set optional_fields" and link: "''url'' \<notin> set optional_fields"
    by (simp_all add: optional_fields_def)
  show ?thesis
    unfolding article_section_def spec_section_def Let_def
      truthy_field_str [OF assms] get_or_str [OF assms title] get_or_str [OF assms link]
    by (simp add: format_value_def url blank_line_after_def nl_def)
qed

lemma format_loop_spec:
  "list_all str_valued articles \<Longrightarrow>
   format_loop val_str i articles markdown =
     Inr (markdown @
          concat (map (\<lambda>k. spec_section (str_nat (i + k + 1)) (articles ! k)) [0..<length articles]))"
proof (induction articles arbitrary: i markdown)
  case Nil
  then show ?case by simp
next
  case (Cons a articles)
  have split: "[0..<length (a # articles)] = 0 # map Suc [0..<length articles]"
    by (simp add: upt_conv_Cons map_Suc_upt del: upt_Suc)
  from Cons.prems have a: "str_valued a" and rest: "list_all str_valued articles" by simp_all
  show ?case
    unfolding split
    by (simp add: article_section_spec [OF a] Cons.IH [OF rest] comp_def)
qed

section \<open>Evaluating the samples\<close>

lemma esearch_two_endpoints:
  "fst (esearch_idlist (two_endpoints (ok_json (idlist_body v)) b) query max_results sent) = Inr v"
  by (simp add: esearch_idlist_def get_json_def requests_get_def two_endpoints_def ok_json_def
      idlist_body_def search_request_def raise_for_status_def response_json_def)

lemma esearch_two_endpoints_failure:
  "fst (esearch_idlist (two_endpoints (TransportFailure m) b) query max_results sent) =
     Inl (RequestException m)"
  by (simp add: esearch_idlist_def get_json_def requests_get_def two_endpoints_def search_request_def)

lemma esummary_two_endpoints:
  "fst (esummary_result (two_endpoints a (ok_json (result_body s))) ids sent) = Inr (JDict s)"
  by (simp add: esummary_result_def get_json_def requests_get_def two_endpoints_def ok_json_def
      result_body_def summary_request_def raise_for_status_def response_json_def base_url_def)

lemma fetch_transport_failure:
  "fst (fetch_pubmed_data (two_endpoints (TransportFailure m) b) query max_results sent) =
     Inl (RequestException m)"
  by (simp add: fetch_unfold esearch_two_endpoints_failure)

lemma article_record_111:
  "article_record ''111'' (JDict
         [(''title'', JStr ''Gene Editing Advances''),
          (''authors'', JList [JDict [(''name'', JStr ''A. Smith'')]]),
          (''pubdate'', JStr ''2023''),
          (''fulljournalname'', JStr ''Nature''),
          (''articleids'', JList [JDict [(''idtype'', JStr ''doi''), (''value'', JStr ''10.1/x'')]])])
   = Inr (crispr_records ! 0)"
  by (simp add: article_record_def extract_authors_def extract_doi_def article_url_def
      crispr_records_def)

lemma article_record_222:
  "article_record ''222'' (JDict
         [(''title'', JStr ''CRISPR Review''),
          (''authors'', JList []),
          (''pubdate'', JStr []),
          (''fulljournalname'', JStr []),
          (''articleids'', JList [])])
   = Inr (crispr_records ! 1)"
  by (simp add: article_record_def extract_authors_def extract_doi_def article_url_def
      crispr_records_def)

lemma crispr_esearch:
  "fst (esearch_idlist crispr_net query max_results sent) = Inr (JList (map JStr [''111'', ''222'']))"
  by (simp add: crispr_net_def esearch_two_endpoints)

lemma crispr_esummary:
  "fst (esummary_result crispr_net ids sent) = Inr (JDict crispr_summaries)"
  by (simp add: crispr_net_def esummary_two_endpoints)

lemma crispr_fetch:
  "fst (fetch_pubmed_data crispr_net query max_results sent) = Inr crispr_records"
proof -
  have "fetch_pubmed_data crispr_net query max_results sent =
      (build_results (JDict crispr_summaries) [''111'', ''222''] [],
       sent @ [search_request query max_results, summary_request [''111'', ''222'']])"
    using fetch_with_ids [OF crispr_esearch, of query max_results sent]
    by (simp add: crispr_esummary)
  moreover have "build_results (JDict crispr_summaries) [''111'', ''222''] [] = Inr crispr_records"
    using article_record_111 article_record_222
    by (simp add: crispr_summaries_def crispr_records_def)
  ultimately show ?thesis by simp
qed

lemma crispr_typed: "list_all str_valued crispr_records"
  by (simp add: crispr_records_def str_valued_def optional_fields_def)

lemma crispr_spec_report: "spec_report str_nat ''CRISPR'' crispr_records = crispr_report"
  by (simp add: spec_report_def crispr_records_def crispr_report_def spec_header_def
      spec_section_def str_field_def blank_line_after_def upt_rec str_nat.simps)

lemma fetch_numeric_journal:
  "fst (fetch_pubmed_data
          (two_endpoints (ok_json (idlist_body (JList [JStr ''111''])))
             (ok_json (result_body
                [(''111'', JDict [(''title'', JStr ''Gene Editing Advances''),
                                  (''fulljournalname'', JInt 5)])])))
          ''CRISPR'' 2 []) =
     Inr [[(''title'', JStr ''Gene Editing Advances''), (''authors'', JStr []),
           (''pubdate'', JStr []), (''journal'', JInt 5), (''doi'', JStr []),
           (''url'', JStr ''https://pubmed.ncbi.nlm.nih.gov/111/'')]]"
proof -
  have "fst (esearch_idlist
          (two_endpoints (ok_json (idlist_body (JList [JStr ''111''])))
             (ok_json (result_body
                [(''111'', JDict [(''title'', JStr ''Gene Editing Advances''),
                                  (''fulljournalname'', JInt 5)])])))
          ''CRISPR'' 2 []) = Inr (JList (map JStr [''111'']))"
    by (simp add: esearch_two_endpoints)
  from fetch_with_ids [OF this] show ?thesis
    by (simp add: esummary_two_endpoints article_record_def extract_authors_def extract_doi_def
        article_url_def)
qed

lemma format_numeric_journal:
  "format_results sample_val_str ''CRISPR''
     [[(''title'', JStr ''Gene Editing Advances''), (''authors'', JStr []),
       (''pubdate'', JStr []), (''journal'', JInt 5), (''doi'', JStr []),
       (''url'', JStr ''https://pubmed.ncbi.nlm.nih.gov/111/'')]] =
     Inl (TypeError JoinItem (JInt 5))"
  by (simp add: format_results_def article_section_def truthy_field_def)

section \<open>The claims\<close>

text \<open>
  C1, amended. For every behaviour of the two endpoints \<^verbatim>\<open>search_pubmed\<close> returns a string
  and no exception leaves it; when \<^verbatim>\<open>_fetch_pubmed_data\<close> or \<^verbatim>\<open>_format_results\<close> raises
  \<open>e\<close>, the string returned is \<^verbatim>\<open>"Error in PubMed search: "\<close> followed by \<^verbatim>\<open>str(e)\<close>.
\<close>

theorem search_pubmed_always_returns_string:
  "\<exists>s. fst (search_pubmed exc_str val_str net query max_results sent) = Inr s \<and>
     (\<forall>e. fst (fetch_pubmed_data net query max_results sent) = Inl e \<longrightarrow>
          s = ''Error in PubMed search: '' @ exc_str e) \<and>
     (\<forall>articles e. fst (fetch_pubmed_data net query max_results sent) = Inr articles \<and>
          articles \<noteq> [] \<and> format_results val_str query articles = Inl e \<longrightarrow>
          s = ''Error in PubMed search: '' @ exc_str e)"
proof (cases "fst (fetch_pubmed_data net query max_results sent)")
  case (Inl e)
  then show ?thesis by (simp add: search_pubmed_fst error_message_def)
next
  case (Inr articles)
  show ?thesis
  proof (cases "articles = []")
    case True
    with Inr show ?thesis by (simp add: search_pubmed_fst)
  next
    case False
    with Inr show ?thesis
      by (cases "format_results val_str query articles")
        (simp_all add: search_pubmed_fst error_message_def)
  qed
qed

text \<open>
  Both failure paths at work: the search endpoint cannot be reached; and a journal name
  that is a number, which \<^verbatim>\<open>' - '.join\<close> refuses inside \<^verbatim>\<open>_format_results\<close>.
\<close>

theorem search_pubmed_always_returns_string_witness:
  "fst (search_pubmed sample_exc_str sample_val_str
          (two_endpoints (TransportFailure ''timed out'') (TransportFailure ''timed out''))
          ''CRISPR'' 2 []) = Inr ''Error in PubMed search: timed out'' \<and>
   fst (search_pubmed sample_exc_str sample_val_str
          (two_endpoints (ok_json (idlist_body (JList [JStr ''111''])))
             (ok_json (result_body
                [(''111'', JDict [(''title'', JStr ''Gene Editing Advances''),
                                  (''fulljournalname'', JInt 5)])])))
          ''CRISPR'' 2 []) = Inr ''Error in PubMed search: TypeError''"
  using search_pubmed_always_returns_string [of sample_exc_str sample_val_str
      "two_endpoints (TransportFailure ''timed out'') (TransportFailure ''timed out'')"
      "''CRISPR''" 2 "[]"]
    search_pubmed_always_returns_string [of sample_exc_str sample_val_str
      "two_endpoints (ok_json (idlist_body (JList [JStr ''111''])))
             (ok_json (result_body
                [(''111'', JDict [(''title'', JStr ''Gene Editing Advances''),
                                  (''fulljournalname'', JInt 5)])]))"
      "''CRISPR''" 2 "[]"]
  by (simp add: fetch_transport_failure fetch_numeric_journal format_numeric_journal)

text \<open>
  C1 as stated fails in its last part: when the search endpoint cannot be reached, the
  string returned does not start with \<^verbatim>\<open>"Error in search: "\<close>.
\<close>

theorem error_prefix_counterexample:
  "fst (fetch_pubmed_data
          (two_endpoints (TransportFailure ''timed out'') (TransportFailure ''timed out''))
          ''CRISPR'' 2 []) = Inl (RequestException ''timed out'') \<and>
   fst (search_pubmed sample_exc_str sample_val_str
          (two_endpoints (TransportFailure ''timed out'') (TransportFailure ''timed out''))
          ''CRISPR'' 2 []) = Inr ''Error in PubMed search: timed out'' \<and>
   \<not> starts_with ''Error in search: ''
       (error_message sample_exc_str (RequestException ''timed out''))"
  by (simp add: fetch_transport_failure search_pubmed_fst error_message_def starts_with_def)

text \<open>
  C2. The limits 0 and 51 are not rejected: the first thing \<^verbatim>\<open>search_pubmed\<close> does with
  either is to issue the search request, with that limit as \<^verbatim>\<open>retmax\<close>.
\<close>

theorem out_of_range_limit_is_sent:
  "take 1 (snd (search_pubmed exc_str val_str net query 0 [])) = [search_request query 0] \<and>
   map_of (req_params (search_request query 0)) ''retmax'' = Some (PInt 0) \<and>
   take 1 (snd (search_pubmed exc_str val_str net query 51 [])) = [search_request query 51] \<and>
   map_of (req_params (search_request query 51)) ''retmax'' = Some (PInt 51)"
proof -
  have "take 1 (snd (search_pubmed exc_str val_str net query m [])) = [search_request query m]" for m
    using fetch_sent_prefix [of net query m "[]"] by (auto simp add: search_pubmed_sent)
  then show ?thesis by (simp add: search_request_def)
qed

text \<open>
  C3. When the search response holds an empty identifier list, \<^verbatim>\<open>search_pubmed\<close> returns
  the text \<^verbatim>\<open>No PubMed results found for query: '...'.\<close> with the query between the
  quotes, the search request is the only request issued, and \<^verbatim>\<open>_fetch_pubmed_data\<close> has
  returned the empty list, so nothing reaches the handler.
\<close>

theorem empty_idlist_no_results:
  assumes "fst (esearch_idlist net query max_results sent) = Inr (JList [])"
  shows "search_pubmed exc_str val_str net query max_results sent =
           (Inr (''No PubMed results found for query: '' @ [CHR 0x27] @ query @ [CHR 0x27] @ ''.''),
            sent @ [search_request query max_results]) \<and>
         fst (fetch_pubmed_data net query max_results sent) = Inr []"
proof -
  have "fst (esearch_idlist net query max_results []) = Inr (JList [])"
    using assms esearch_idlist_fst [of net query max_results sent "[]"] by simp
  then have f: "fetch_pubmed_data net query max_results sent =
      (Inr [], sent @ [search_request query max_results])"
    by (simp add: fetch_unfold)
  then show ?thesis
    using search_pubmed_fst [of exc_str val_str net query max_results sent]
      search_pubmed_sent [of exc_str val_str net query max_results sent]
    by (cases "search_pubmed exc_str val_str net query max_results sent")
      (simp add: no_results_message_def)
qed

text \<open>
  The same empty response for two queries: each message carries its own query.
\<close>

theorem empty_idlist_no_results_witness:
  "fst (esearch_idlist (two_endpoints (ok_json (idlist_body (JList []))) (TransportFailure ''down''))
          ''CRISPR'' 2 []) = Inr (JList []) \<and>
   search_pubmed sample_exc_str sample_val_str
      (two_endpoints (ok_json (idlist_body (JList []))) (TransportFailure ''down'')) ''CRISPR'' 2 [] =
     (Inr (''No PubMed results found for query: '' @ [CHR 0x27] @ ''CRISPR'' @ [CHR 0x27] @ ''.''),
      [search_request ''CRISPR'' 2]) \<and>
   fst (search_pubmed sample_exc_str sample_val_str
      (two_endpoints (ok_json (idlist_body (JList []))) (TransportFailure ''down'')) ''p53'' 2 []) =
     Inr (''No PubMed results found for query: '' @ [CHR 0x27] @ ''p53'' @ [CHR 0x27] @ ''.'')"
proof -
  have h: "fst (esearch_idlist
      (two_endpoints (ok_json (idlist_body (JList []))) (TransportFailure ''down''))
      query 2 []) = Inr (JList [])" for query
    by (rule esearch_two_endpoints)
  show ?thesis
    using h [of "''CRISPR''"] empty_idlist_no_results [OF h, of sample_exc_str sample_val_str "''CRISPR''"]
      empty_idlist_no_results [OF h, of sample_exc_str sample_val_str "''p53''"]
    by simp
qed

text \<open>
  C4, amended. When the search response lists the identifiers \<open>ids\<close> (strings) and the
  summary response maps every one of them to an entry from which the loop body extracts a
  record, \<^verbatim>\<open>_fetch_pubmed_data\<close> returns exactly these records, one for each identifier and in
  the order of \<open>ids\<close>, whatever the order of the keys in the summary response; the record at
  each position links to the identifier at that position.
\<close>

theorem one_record_per_id_in_order:
  assumes "fst (esearch_idlist net query max_results sent) = Inr (JList (map JStr ids))"
    and "ids \<noteq> [] \<longrightarrow> fst (esummary_result net ids sent') = Inr summaries"
    and "\<forall>i \<in> set ids. \<exists>article. py_getitem summaries i = Inr article \<and>
           article_record i article = Inr (recs i)"
  shows "fst (fetch_pubmed_data net query max_results sent) = Inr (map recs ids) \<and>
         map (\<lambda>r. map_of r ''url'') (map recs ids) = map (\<lambda>i. Some (JStr (article_url i))) ids"
proof -
  have urls: "map_of (recs i) ''url'' = Some (JStr (article_url i))" if "i \<in> set ids" for i
  proof -
    from assms(3) that obtain article where "article_record i article = Inr (recs i)" by blast
    then show ?thesis by (rule article_record_url)
  qed
  have "fst (fetch_pubmed_data net query max_results sent) = Inr (map recs ids)"
  proof (cases "ids = []")
    case True
    then have "fst (esearch_idlist net query max_results []) = Inr (JList [])"
      using assms(1) esearch_idlist_fst [of net query max_results sent "[]"] by simp
    with True show ?thesis by (simp add: fetch_unfold)
  next
    case False
    with assms(2) have "fst (esummary_result net ids []) = Inr summaries"
      using esummary_result_fst [of net ids sent' "[]"] by simp
    moreover have "build_results summaries ids [] = Inr ([] @ map recs ids)"
      using assms(3) by (rule build_results_map)
    ultimately show ?thesis
      using fetch_with_ids [OF assms(1) False] by simp
  qed
  with urls show ?thesis by simp
qed

theorem one_record_per_id_in_order_witness:
  "fst (esearch_idlist crispr_net ''CRISPR'' 2 []) = Inr (JList (map JStr [''111'', ''222''])) \<and>
   fst (esummary_result crispr_net [''111'', ''222''] []) = Inr (JDict crispr_summaries) \<and>
   fst (fetch_pubmed_data crispr_net ''CRISPR'' 2 []) = Inr crispr_records"
proof -
  define recs where "recs = (\<lambda>i. if i = ''111'' then crispr_records ! 0 else crispr_records ! 1)"
  have h1: "fst (esearch_idlist crispr_net ''CRISPR'' 2 []) = Inr (JList (map JStr [''111'', ''222'']))"
    by (rule crispr_esearch)
  have h2: "[''111'', ''222''] \<noteq> [] \<longrightarrow>
      fst (esummary_result crispr_net [''111'', ''222''] []) = Inr (JDict crispr_summaries)"
    by (simp add: crispr_esummary)
  have h3: "\<forall>i \<in> set [''111'', ''222'']. \<exists>article.
      py_getitem (JDict crispr_summaries) i = Inr article \<and> article_record i article = Inr (recs i)"
    using article_record_111 article_record_222 by (simp add: crispr_summaries_def recs_def)
  have "map recs [''111'', ''222''] = crispr_records"
    by (simp add: recs_def crispr_records_def)
  with one_record_per_id_in_order [OF h1 h2 h3] h1 h2 show ?thesis by simp
qed

text \<open>
  C4 as stated fails: an entry for each identifier is not enough. Here the entry of 111 is
  present and has a title, but an item of its \<^verbatim>\<open>articleids\<close> has no \<^verbatim>\<open>idtype\<close>, and no record
  is returned.
\<close>

theorem entry_for_each_id_counterexample:
  "py_getitem
     (JDict [(''111'', JDict [(''title'', JStr ''Gene Editing Advances''),
                               (''articleids'', JList [JDict [(''value'', JStr ''10.1/x'')]])])])
     ''111'' =
     Inr (JDict [(''title'', JStr ''Gene Editing Advances''),
                 (''articleids'', JList [JDict [(''value'', JStr ''10.1/x'')]])]) \<and>
   fst (fetch_pubmed_data
          (two_endpoints (ok_json (idlist_body (JList [JStr ''111''])))
             (ok_json (result_body
                [(''111'', JDict [(''title'', JStr ''Gene Editing Advances''),
                                  (''articleids'', JList [JDict [(''value'', JStr ''10.1/x'')]])])])))
          ''CRISPR'' 2 []) = Inl (KeyError ''idtype'')"
proof -
  have "fst (esearch_idlist
      (two_endpoints (ok_json (idlist_body (JList [JStr ''111''])))
             (ok_json (result_body
                [(''111'', JDict [(''title'', JStr ''Gene Editing Advances''),
                                  (''articleids'', JList [JDict [(''value'', JStr ''10.1/x'')]])])])))
      ''CRISPR'' 2 []) = Inr (JList (map JStr [''111'']))"
    by (simp add: esearch_two_endpoints)
  from fetch_with_ids [OF this] show ?thesis
    by (simp add: esummary_two_endpoints article_record_def extract_authors_def extract_doi_def)
qed

text \<open>
  C5. A summary entry without a title is not given a placeholder: \<^verbatim>\<open>article["title"]\<close>
  raises \<^verbatim>\<open>KeyError\<close>, and \<^verbatim>\<open>search_pubmed\<close> returns the error message. The default
  \<^verbatim>\<open>'Untitled'\<close> of \<^verbatim>\<open>_format_results\<close> is never reached from here.
\<close>

theorem missing_title_raises:
  "article_record ''111'' (JDict [(''authors'', JList []), (''pubdate'', JStr ''2023'')]) =
     Inl (KeyError ''title'') \<and>
   fst (search_pubmed sample_exc_str sample_val_str
          (two_endpoints (ok_json (idlist_body (JList [JStr ''111''])))
             (ok_json (result_body
                [(''111'', JDict [(''authors'', JList []), (''pubdate'', JStr ''2023'')])])))
          ''CRISPR'' 2 []) =
     Inr (''Error in PubMed search: '' @ [CHR 0x27] @ ''title'' @ [CHR 0x27])"
proof -
  have "fst (esearch_idlist
      (two_endpoints (ok_json (idlist_body (JList [JStr ''111''])))
             (ok_json (result_body
                [(''111'', JDict [(''authors'', JList []), (''pubdate'', JStr ''2023'')])])))
      ''CRISPR'' 2 []) = Inr (JList (map JStr [''111'']))"
    by (simp add: esearch_two_endpoints)
  from fetch_with_ids [OF this] show ?thesis
    by (simp add: esummary_two_endpoints article_record_def search_pubmed_fst error_message_def)
qed

text \<open>
  C6. When an identifier of the search response is missing from the summary response,
  \<^verbatim>\<open>_fetch_pubmed_data\<close> raises (it returns no list, neither a partial one nor one that skips
  the identifier), the exception is a \<open>MalformedResponseError\<close> in the taxonomy of the
  specification, and \<^verbatim>\<open>search_pubmed\<close> returns its error message.
\<close>

theorem missing_id_is_malformed_response:
  assumes "fst (esearch_idlist net query max_results sent) = Inr (JList (map JStr ids))"
    and "fst (esummary_result net ids sent') = Inr (JDict summaries)"
    and "i \<in> set ids"
    and "map_of summaries i = None"
  shows "\<exists>e. fst (fetch_pubmed_data net query max_results sent) = Inl e \<and>
             spec_error_kind e = MalformedResponseError \<and>
             fst (search_pubmed exc_str val_str net query max_results sent) =
               Inr (error_message exc_str e)"
proof -
  from assms(3) have ne: "ids \<noteq> []" by auto
  have s: "fst (esummary_result net ids []) = Inr (JDict summaries)"
    using assms(2) esummary_result_fst [of net ids sent' "[]"] by simp
  have "py_getitem (JDict summaries) i = Inl (KeyError i)"
    using assms(4) by simp
  then obtain e where e: "build_results (JDict summaries) ids [] = Inl e"
    using build_results_fails [OF assms(3), of "JDict summaries" "[]"] by auto
  then have "spec_error_kind e = MalformedResponseError"
    by (rule build_results_malformed)
  moreover have "fst (fetch_pubmed_data net query max_results sent) = Inl e"
    using fetch_with_ids [OF assms(1) ne] s e by simp
  ultimately show ?thesis by (simp add: search_pubmed_fst)
qed

theorem missing_id_is_malformed_response_witness:
  "fst (esearch_idlist
          (two_endpoints (ok_json (idlist_body (JList [JStr ''111'', JStr ''333''])))
             (ok_json (result_body crispr_summaries))) ''CRISPR'' 2 []) =
     Inr (JList (map JStr [''111'', ''333''])) \<and>
   map_of crispr_summaries ''333'' = None \<and>
   fst (fetch_pubmed_data
          (two_endpoints (ok_json (idlist_body (JList [JStr ''111'', JStr ''333''])))
             (ok_json (result_body crispr_summaries))) ''CRISPR'' 2 []) =
     Inl (KeyError ''333'')"
proof -
  let ?net = "two_endpoints (ok_json (idlist_body (JList [JStr ''111'', JStr ''333''])))
             (ok_json (result_body crispr_summaries))"
  have h1: "fst (esearch_idlist ?net ''CRISPR'' 2 []) = Inr (JList (map JStr [''111'', ''333'']))"
    by (simp add: esearch_two_endpoints)
  have h2: "fst (esummary_result ?net [''111'', ''333''] []) = Inr (JDict crispr_summaries)"
    by (simp add: esummary_two_endpoints)
  have h3: "''333'' \<in> set [''111'', ''333'']" by simp
  have h4: "map_of crispr_summaries ''333'' = None" by (simp add: crispr_summaries_def)
  have "fst (fetch_pubmed_data ?net ''CRISPR'' 2 []) = Inl (KeyError ''333'')"
    using fetch_with_ids [OF h1] h2 article_record_111
    by (simp add: crispr_summaries_def)
  with missing_id_is_malformed_response [OF h1 h2 h3 h4, of sample_exc_str sample_val_str] h1 h4
  show ?thesis by simp
qed

text \<open>
  C7, amended. For every \<open>max_results\<close> the search request asks for \<open>max_results\<close>
  identifiers (\<^verbatim>\<open>retmax\<close>). The code does not truncate: when \<^verbatim>\<open>_fetch_pubmed_data\<close> returns,
  it returns as many records as the search response lists identifiers, hence at most
  \<open>max_results\<close> when the search response lists at most \<open>max_results\<close> identifiers.
\<close>

theorem record_count_matches_idlist:
  assumes "fst (esearch_idlist net query max_results sent) = Inr (JList id_items)"
    and "fst (fetch_pubmed_data net query max_results sent) = Inr rs"
  shows "take 1 (snd (fetch_pubmed_data net query max_results [])) =
           [search_request query max_results] \<and>
         map_of (req_params (search_request query max_results)) ''retmax'' = Some (PInt max_results) \<and>
         length rs = length id_items \<and>
         (int (length id_items) \<le> max_results \<longrightarrow> int (length rs) \<le> max_results)"
proof -
  have first: "take 1 (snd (fetch_pubmed_data net query max_results [])) =
      [search_request query max_results]"
    using fetch_sent_prefix [of net query max_results "[]"] by auto
  have loc: "fst (esearch_idlist net query max_results []) = Inr (JList id_items)"
    using assms(1) esearch_idlist_fst [of net query max_results sent "[]"] by simp
  have len: "length rs = length id_items"
  proof (cases "id_items = []")
    case True
    with loc assms(2) show ?thesis by (simp add: fetch_unfold)
  next
    case False
    show ?thesis
    proof (cases "str_items id_items")
      case (Inl e)
      with loc False assms(2) show ?thesis by (simp add: fetch_unfold)
    next
      case (Inr ids)
      then have l: "length ids = length id_items" by (rule str_items_length)
      show ?thesis
      proof (cases "fst (esummary_result net ids [])")
        case (Inl e)
        with loc False Inr assms(2) show ?thesis by (simp add: fetch_unfold)
      next
        case summ: (Inr summaries)
        with loc False Inr assms(2) have "build_results summaries ids [] = Inr rs"
          by (simp add: fetch_unfold)
        then have "length rs = length ([] :: pydict list) + length ids"
          by (rule build_results_length)
        with l show ?thesis by simp
      qed
    qed
  qed
  from first len show ?thesis by (simp add: search_request_def)
qed

theorem record_count_matches_idlist_witness:
  "fst (esearch_idlist crispr_net ''CRISPR'' 2 []) = Inr (JList [JStr ''111'', JStr ''222'']) \<and>
   fst (fetch_pubmed_data crispr_net ''CRISPR'' 2 []) = Inr crispr_records \<and>
   take 1 (snd (fetch_pubmed_data crispr_net ''CRISPR'' 2 [])) = [search_request ''CRISPR'' 2] \<and>
   length crispr_records = 2"
proof -
  have h1: "fst (esearch_idlist crispr_net ''CRISPR'' 2 []) = Inr (JList [JStr ''111'', JStr ''222''])"
    using crispr_esearch [of "''CRISPR''" 2 "[]"] by simp
  have h2: "fst (fetch_pubmed_data crispr_net ''CRISPR'' 2 []) = Inr crispr_records"
    by (rule crispr_fetch)
  from record_count_matches_idlist [OF h1 h2] h1 h2 show ?thesis by simp
qed

text \<open>
  C7 as stated fails for a search response that lists more identifiers than were asked
  for: with \<open>max_results = 1\<close> and two identifiers, two records are returned.
\<close>

theorem limit_exceeded_counterexample:
  "fst (esearch_idlist crispr_net ''CRISPR'' 1 []) = Inr (JList [JStr ''111'', JStr ''222'']) \<and>
   fst (fetch_pubmed_data crispr_net ''CRISPR'' 1 []) = Inr crispr_records \<and>
   \<not> int (length crispr_records) \<le> 1"
  using crispr_esearch [of "''CRISPR''" 1 "[]"] crispr_fetch [of "''CRISPR''" 1 "[]"]
  by (simp add: crispr_records_def)

text \<open>
  C8, amended. For a summary entry whose \<^verbatim>\<open>articleids\<close> is a list (or is absent) and in
  which every item before the first one with \<^verbatim>\<open>idtype\<close> \<^verbatim>\<open>"doi"\<close> (every item, when
  there is none) is an object that carries an \<^verbatim>\<open>idtype\<close>: the DOI extraction returns the
  \<^verbatim>\<open>value\<close> of that first item (and raises \<^verbatim>\<open>KeyError('value')\<close> when the item has
  none), and it returns the empty string when there is no such item. Items after the first
  match are not read. The \<^verbatim>\<open>doi\<close> of a record extracted from the entry is this value.
\<close>

theorem doi_is_first_doi_entry:
  assumes "map_of a ''articleids'' = Some (JList id_objs) \<or>
           (map_of a ''articleids'' = None \<and> id_objs = [])"
    and "\<forall>x \<in> set (takeWhile (\<lambda>x. \<not> is_doi_entry x) id_objs).
           \<exists>d t. x = JDict d \<and> map_of d ''idtype'' = Some t"
  shows "extract_doi (JDict a) =
           (case find is_doi_entry id_objs of
              None \<Rightarrow> Inr (JStr [])
            | Some x \<Rightarrow>
                (case entry_value x of Some v \<Rightarrow> Inr v | None \<Rightarrow> Inl (KeyError ''value''))) \<and>
         (\<forall>r. article_record article_id (JDict a) = Inr r \<longrightarrow>
              (\<exists>d. map_of r ''doi'' = Some d \<and> extract_doi (JDict a) = Inr d))"
proof -
  have "extract_doi (JDict a) = first_doi id_objs"
    using assms(1) by (auto simp add: extract_doi_def)
  with first_doi_scan [OF assms(2)] have scan: "extract_doi (JDict a) =
           (case find is_doi_entry id_objs of
              None \<Rightarrow> Inr (JStr [])
            | Some x \<Rightarrow>
                (case entry_value x of Some v \<Rightarrow> Inr v | None \<Rightarrow> Inl (KeyError ''value'')))"
    by simp
  have "\<exists>d. map_of r ''doi'' = Some d \<and> extract_doi (JDict a) = Inr d"
    if "article_record article_id (JDict a) = Inr r" for r
    using article_record_doi [OF that] by auto
  with scan show ?thesis by blast
qed

text \<open>
  A first match that is followed by an item without \<^verbatim>\<open>idtype\<close>; a list without a match;
  an entry without \<^verbatim>\<open>articleids\<close>.
\<close>

theorem doi_is_first_doi_entry_witness:
  "extract_doi
     (JDict [(''title'', JStr ''Gene Editing Advances''),
             (''articleids'',
              JList [JDict [(''idtype'', JStr ''pii''), (''value'', JStr ''S1'')],
                     JDict [(''idtype'', JStr ''doi''), (''value'', JStr ''10.1/x'')],
                     JDict [(''value'', JStr ''10.1/y'')]])]) = Inr (JStr ''10.1/x'') \<and>
   article_record ''111''
     (JDict [(''title'', JStr ''Gene Editing Advances''),
             (''articleids'',
              JList [JDict [(''idtype'', JStr ''pii''), (''value'', JStr ''S1'')],
                     JDict [(''idtype'', JStr ''doi''), (''value'', JStr ''10.1/x'')],
                     JDict [(''value'', JStr ''10.1/y'')]])]) =
     Inr [(''title'', JStr ''Gene Editing Advances''), (''authors'', JStr []),
          (''pubdate'', JStr []), (''journal'', JStr []), (''doi'', JStr ''10.1/x''),
          (''url'', JStr ''https://pubmed.ncbi.nlm.nih.gov/111/'')] \<and>
   extract_doi
     (JDict [(''title'', JStr ''CRISPR Review''),
             (''articleids'',
              JList [JDict [(''idtype'', JStr ''pii''), (''value'', JStr ''S1'')]])]) = Inr (JStr []) \<and>
   extract_doi (JDict [(''title'', JStr ''CRISPR Review'')]) = Inr (JStr [])"
proof -
  let ?ids = "[JDict [(''idtype'', JStr ''pii''), (''value'', JStr ''S1'')],
               JDict [(''idtype'', JStr ''doi''), (''value'', JStr ''10.1/x'')],
               JDict [(''value'', JStr ''10.1/y'')]]"
  let ?a = "[(''title'', JStr ''Gene Editing Advances''), (''articleids'', JList ?ids)]"
  let ?ids2 = "[JDict [(''idtype'', JStr ''pii''), (''value'', JStr ''S1'')]]"
  let ?a2 = "[(''title'', JStr ''CRISPR Review''), (''articleids'', JList ?ids2)]"
  let ?a3 = "[(''title'', JStr ''CRISPR Review'')]"
  have h1: "map_of ?a ''articleids'' = Some (JList ?ids) \<or>
      (map_of ?a ''articleids'' = None \<and> ?ids = [])"
    by simp
  have h2: "\<forall>x \<in> set (takeWhile (\<lambda>x. \<not> is_doi_entry x) ?ids).
      \<exists>d t. x = JDict d \<and> map_of d ''idtype'' = Some t"
    by (simp add: is_doi_entry_def)
  have g1: "map_of ?a2 ''articleids'' = Some (JList ?ids2) \<or>
      (map_of ?a2 ''articleids'' = None \<and> ?ids2 = [])"
    by simp
  have g2: "\<forall>x \<in> set (takeWhile (\<lambda>x. \<not> is_doi_entry x) ?ids2).
      \<exists>d t. x = JDict d \<and> map_of d ''idtype'' = Some t"
    by (simp add: is_doi_entry_def)
  have k1: "map_of ?a3 ''articleids'' = Some (JList []) \<or>
      (map_of ?a3 ''articleids'' = None \<and> ([] :: json list) = [])"
    by simp
  have k2: "\<forall>x \<in> set (takeWhile (\<lambda>x. \<not> is_doi_entry x) []).
      \<exists>d t. x = JDict d \<and> map_of d ''idtype'' = Some t"
    by simp
  have r: "article_record ''111'' (JDict ?a) =
     Inr [(''title'', JStr ''Gene Editing Advances''), (''authors'', JStr []),
          (''pubdate'', JStr []), (''journal'', JStr []), (''doi'', JStr ''10.1/x''),
          (''url'', JStr ''https://pubmed.ncbi.nlm.nih.gov/111/'')]"
    by (simp add: article_record_def extract_authors_def extract_doi_def article_url_def)
  from doi_is_first_doi_entry [OF h1 h2, of "''111''"] doi_is_first_doi_entry [OF g1 g2, of "''222''"]
    doi_is_first_doi_entry [OF k1 k2, of "''222''"] r
  show ?thesis
    by (simp add: is_doi_entry_def entry_value_def)
qed

text \<open>
  C8 as stated fails for some summary entries: here a first item with \<^verbatim>\<open>idtype\<close>
  \<^verbatim>\<open>"doi"\<close> exists, with the value 10.1/y, but an earlier item has no \<^verbatim>\<open>idtype\<close> and the
  extraction raises; and where no item has the \<^verbatim>\<open>idtype\<close> \<^verbatim>\<open>"doi"\<close>, the same item makes
  it raise instead of giving the empty string.
\<close>

theorem doi_scan_counterexample:
  "find is_doi_entry
     [JDict [(''value'', JStr ''S1'')],
      JDict [(''idtype'', JStr ''doi''), (''value'', JStr ''10.1/y'')]] =
     Some (JDict [(''idtype'', JStr ''doi''), (''value'', JStr ''10.1/y'')]) \<and>
   entry_value (JDict [(''idtype'', JStr ''doi''), (''value'', JStr ''10.1/y'')]) =
     Some (JStr ''10.1/y'') \<and>
   article_record ''111''
     (JDict [(''title'', JStr ''Gene Editing Advances''),
             (''articleids'',
              JList [JDict [(''value'', JStr ''S1'')],
                     JDict [(''idtype'', JStr ''doi''), (''value'', JStr ''10.1/y'')]])]) =
     Inl (KeyError ''idtype'') \<and>
   find is_doi_entry [JDict [(''value'', JStr ''S1'')]] = None \<and>
   article_record ''111''
     (JDict [(''title'', JStr ''Gene Editing Advances''),
             (''articleids'', JList [JDict [(''value'', JStr ''S1'')]])]) =
     Inl (KeyError ''idtype'')"
  by (simp add: is_doi_entry_def entry_value_def article_record_def extract_authors_def
      extract_doi_def)

text \<open>
  C9. For every query and every sequence of records (string-valued dicts, where an
  optional field may be missing, empty or \<^verbatim>\<open>None\<close>), \<^verbatim>\<open>_format_results\<close> does not raise and
  returns the header followed, for each record in input order and numbered from 1, by the
  section the specification describes: an Authors line iff authors is non-empty, a
  Published-in line iff journal or pubdate is non-empty (the non-empty ones joined with
  \<^verbatim>\<open>" - "\<close>), a DOI line iff doi is non-empty, and always the PubMed Link line; every line
  is followed by a blank line. The count and the ordinals are printed by \<open>str_nat\<close>, which
  gives the decimal numeral of every number.
\<close>

theorem report_layout:
  assumes "list_all str_valued articles"
  shows "format_results val_str query articles = Inr (spec_report str_nat query articles) \<and>
         (\<forall>n. is_decimal_of (str_nat n) n)"
  using format_loop_spec [OF assms, of val_str 0]
  by (simp add: format_results_def spec_report_def report_header_spec str_nat_is_decimal)

text \<open>
  The scenario of the specification, with the whole report; and a two-digit numeral.
\<close>

theorem report_layout_witness:
  "list_all str_valued crispr_records \<and>
   format_results sample_val_str ''CRISPR'' crispr_records = Inr crispr_report \<and>
   is_decimal_of (str_nat 12) 12 \<and> str_nat 12 = ''12''"
proof -
  from report_layout [OF crispr_typed, of sample_val_str "''CRISPR''"]
  have r: "format_results sample_val_str ''CRISPR'' crispr_records =
      Inr (spec_report str_nat ''CRISPR'' crispr_records)"
    and d: "is_decimal_of (str_nat 12) 12"
    by simp_all
  have "str_nat 12 = ''12''" by (simp add: str_nat.simps)
  with r d crispr_typed show ?thesis by (simp add: crispr_spec_report)
qed

text \<open>
  C10. When an item of the \<^verbatim>\<open>articleids\<close> list of a summary entry has no \<^verbatim>\<open>idtype\<close> key
  and no earlier item has the \<^verbatim>\<open>idtype\<close> \<^verbatim>\<open>"doi"\<close> (the items being objects), the DOI
  extraction raises \<^verbatim>\<open>KeyError('idtype')\<close>; when that entry belongs to an identifier of
  the search response, \<^verbatim>\<open>_fetch_pubmed_data\<close> raises and \<^verbatim>\<open>search_pubmed\<close> returns the
  error message instead of a report.
\<close>

theorem missing_idtype_is_an_error:
  assumes "map_of a ''articleids'' = Some (JList (pre @ JDict id_obj # post))"
    and "map_of id_obj ''idtype'' = None"
    and "\<forall>x \<in> set pre. \<exists>d. x = JDict d \<and> map_of d ''idtype'' \<noteq> Some (JStr ''doi'')"
    and "fst (esearch_idlist net query max_results sent) = Inr (JList (map JStr ids))"
    and "fst (esummary_result net ids sent') = Inr summaries"
    and "i \<in> set ids"
    and "py_getitem summaries i = Inr (JDict a)"
  shows "extract_doi (JDict a) = Inl (KeyError ''idtype'') \<and>
         (\<exists>e. fst (fetch_pubmed_data net query max_results sent) = Inl e \<and>
              fst (search_pubmed exc_str val_str net query max_results sent) =
                Inr (error_message exc_str e))"
proof -
  have doi: "extract_doi (JDict a) = Inl (KeyError ''idtype'')"
    using assms(1) first_doi_missing_idtype [OF assms(3) assms(2)]
    by (simp add: extract_doi_def)
  then obtain e' where "article_record i (JDict a) = Inl e'"
    using article_record_doi_fails by blast
  with assms(7) obtain e where e: "build_results summaries ids [] = Inl e"
    using build_results_fails [OF assms(6), of summaries "[]"] by blast
  from assms(6) have ne: "ids \<noteq> []" by auto
  have "fst (esummary_result net ids []) = Inr summaries"
    using assms(5) esummary_result_fst [of net ids sent' "[]"] by simp
  with e have "fst (fetch_pubmed_data net query max_results sent) = Inl e"
    using fetch_with_ids [OF assms(4) ne] by simp
  with doi show ?thesis by (simp add: search_pubmed_fst)
qed

theorem missing_idtype_is_an_error_witness:
  "extract_doi
     (JDict [(''title'', JStr ''CRISPR Review''),
             (''articleids'',
              JList [JDict [(''idtype'', JStr ''pii''), (''value'', JStr ''S1'')],
                     JDict [(''value'', JStr ''10.1/x'')]])]) = Inl (KeyError ''idtype'') \<and>
   fst (search_pubmed sample_exc_str sample_val_str
          (two_endpoints (ok_json (idlist_body (JList [JStr ''222''])))
             (ok_json (result_body
                [(''222'',
                  JDict [(''title'', JStr ''CRISPR Review''),
                         (''articleids'',
                          JList [JDict [(''idtype'', JStr ''pii''), (''value'', JStr ''S1'')],
                                 JDict [(''value'', JStr ''10.1/x'')]])])])))
          ''CRISPR'' 2 []) =
     Inr (''Error in PubMed search: '' @ [CHR 0x27] @ ''idtype'' @ [CHR 0x27])"
proof -
  let ?a = "[(''title'', JStr ''CRISPR Review''),
             (''articleids'',
              JList [JDict [(''idtype'', JStr ''pii''), (''value'', JStr ''S1'')],
                     JDict [(''value'', JStr ''10.1/x'')]])]"
  let ?net = "two_endpoints (ok_json (idlist_body (JList [JStr ''222''])))
                (ok_json (result_body [(''222'', JDict ?a)]))"
  have h1: "map_of ?a ''articleids'' =
      Some (JList ([JDict [(''idtype'', JStr ''pii''), (''value'', JStr ''S1'')]] @
                   JDict [(''value'', JStr ''10.1/x'')] # []))"
    by simp
  have h2: "map_of [(''value'', JStr ''10.1/x'')] ''idtype'' = None" by simp
  have h3: "\<forall>x \<in> set [JDict [(''idtype'', JStr ''pii''), (''value'', JStr ''S1'')]].
      \<exists>d. x = JDict d \<and> map_of d ''idtype'' \<noteq> Some (JStr ''doi'')"
    by simp
  have h4: "fst (esearch_idlist ?net ''CRISPR'' 2 []) = Inr (JList (map JStr [''222'']))"
    by (simp add: esearch_two_endpoints)
  have h5: "fst (esummary_result ?net [''222''] []) = Inr (JDict [(''222'', JDict ?a)])"
    by (simp add: esummary_two_endpoints)
  have h6: "''222'' \<in> set [''222'']" by simp
  have h7: "py_getitem (JDict [(''222'', JDict ?a)]) ''222'' = Inr (JDict ?a)" by simp
  have f: "fst (fetch_pubmed_data ?net ''CRISPR'' 2 []) = Inl (KeyError ''idtype'')"
    using fetch_with_ids [OF h4] h5
    by (simp add: article_record_def extract_authors_def extract_doi_def)
  from missing_idtype_is_an_error [OF h1 h2 h3 h4 h5 h6 h7, of sample_exc_str sample_val_str] f
  show ?thesis by (simp add: error_message_def)
qed

end
